theory Spec2Isabelle
  imports Complex_Main
begin

section \<open>The item-category service (ItemCategoriesService.ts)\<close>

subsection \<open>Errors, events and values\<close>

text \<open>
  The constant table \<open>ERRORS\<close> of the service. Every failure of the service is
  \<open>throw new ServiceError(ERRORS.X)\<close>. The class \<open>ServiceError\<close> (module
  \<open>exceptions\<close>) is not among the sources; the service passes its constructor the
  error type and nothing else, so the thrown value is modelled by the error type itself:
  a discrete named condition, as the specification describes the errors.
\<close>

datatype ERRORS =
    ITEM_CATEGORIES_NOT_FOUND
  | CATEGORY_NAME_EXISTS
  | CATEGORY_NOT_FOUND
  | COST_ACCOUNT_NOT_FOUMD
  | COST_ACCOUNT_NOT_COGS
  | SELL_ACCOUNT_NOT_INCOME
  | SELL_ACCOUNT_NOT_FOUND
  | INVENTORY_ACCOUNT_NOT_FOUND
  | INVENTORY_ACCOUNT_NOT_INVENTORY
  | CATEGORY_HAVE_ITEMS

text \<open>The events \<open>events.itemCategory.*\<close> the service dispatches.\<close>

datatype event = onCreated | onEdited | onDeleted | onBulkDeleted

text \<open>
  An optional numeric property of a JavaScript object: absent (\<open>undefined\<close>),
  \<open>null\<close>, or a number. \<open>truthy\<close> is the test of \<open>if (x)\<close>: a number is truthy
  unless it is zero.
\<close>

datatype optional_number = Undefined | Null | Num int

fun truthy :: "optional_number \<Rightarrow> bool" where
  "truthy Undefined = False"
| "truthy Null = False"
| "truthy (Num n) = (n \<noteq> 0)"

text \<open>The argument \<open>number | number[]\<close> of \<open>unassociateItemsWithCategories\<close>.\<close>

datatype number_or_array = One int | Many "int list"

subsection \<open>The data model\<close>

text \<open>
  The payload \<open>IItemCategoryOTD\<close> (the properties the service reads) and the object
  \<open>{ ...itemCategoryOTD, userId }\<close> that \<open>transformOTDToObject\<close> builds from it.
\<close>

record IItemCategoryOTD =
  name :: string
  sellAccountId :: optional_number
  costAccountId :: optional_number
  inventoryAccountId :: optional_number

record ItemCategoryObject = IItemCategoryOTD +
  userId :: int

record ISystemUser =
  user_id :: int

text \<open>
  A stored row of the item-categories table (\<open>IItemCategory\<close>): the primary key, the
  name, the three nullable account references and the owning user.
\<close>

record IItemCategory =
  c_id :: int
  c_name :: string
  c_sellAccountId :: "int option"
  c_costAccountId :: "int option"
  c_inventoryAccountId :: "int option"
  c_userId :: int

text \<open>A stored row of the items table; \<open>category_id\<close> is the nullable back-reference.\<close>

record IItem =
  item_id :: int
  item_name :: string
  category_id :: "int option"

text \<open>
  Modelled from the spec: the Account model and the tables of \<open>data/AccountTypes\<close>
  (\<open>ACCOUNT_ROOT_TYPE\<close>, \<open>ACCOUNT_TYPE\<close>) are not among the sources. An account
  carries its account type and the root type of that type (income, expense, asset,
  liability, equity); \<open>isRootType\<close> and \<open>isAccountType\<close> compare them with the
  argument.
\<close>

datatype ACCOUNT_ROOT_TYPE = ASSET | LIABILITY | EQUITY | EXPENSE | INCOME

record IAccount =
  account_id :: int
  accountType :: string
  accountRootType :: ACCOUNT_ROOT_TYPE

definition ACCOUNT_TYPE_INVENTORY :: string where
  "ACCOUNT_TYPE_INVENTORY = ''inventory''"

definition isRootType :: "IAccount \<Rightarrow> ACCOUNT_ROOT_TYPE \<Rightarrow> bool" where
  "isRootType account rootType = (accountRootType account = rootType)"

definition isAccountType :: "IAccount \<Rightarrow> string \<Rightarrow> bool" where
  "isAccountType account accType = (accountType account = accType)"

text \<open>
  The models of one tenant (\<open>this.tenancy.models(tenantId)\<close>): its tables as lists of
  rows, and the auto-increment counter of the item-categories table.
\<close>

record tenant_models =
  ItemCategory :: "IItemCategory list"
  Item :: "IItem list"
  Account :: "IAccount list"
  ItemCategory_autoinc :: int

text \<open>
  What the service does to the outside, in the order it does it: a write query that
  has completed on a tenant's database (with the database it left), and a dispatched
  event.
\<close>

datatype effect = Persist int tenant_models | Dispatch event

record world =
  tenants :: "int \<Rightarrow> tenant_models"
  journal :: "effect list"

subsection \<open>Sequencing: \<open>await\<close> and \<open>throw\<close>\<close>

text \<open>
  An \<open>async\<close> method runs from a state and ends with a value or a thrown error, and
  with the state it left behind: a \<open>throw\<close> stops the method but undoes nothing.
\<close>

type_synonym 'a async = "world \<Rightarrow> (ERRORS + 'a) \<times> world"

definition resolve :: "'a \<Rightarrow> 'a async" where
  "resolve x w = (Inr x, w)"

definition throw :: "ERRORS \<Rightarrow> 'a async" where
  "throw e w = (Inl e, w)"

definition await :: "'a async \<Rightarrow> ('a \<Rightarrow> 'b async) \<Rightarrow> 'b async" where
  "await m k w = (case m w of (Inl e, w') \<Rightarrow> (Inl e, w') | (Inr x, w') \<Rightarrow> k x w')"

text \<open>\<open>if (x) { await validate(x); }\<close> for an optional number \<open>x\<close>.\<close>

fun whenTruthy :: "optional_number \<Rightarrow> (int \<Rightarrow> unit async) \<Rightarrow> unit async" where
  "whenTruthy (Num n) validate = (if n \<noteq> 0 then validate n else resolve ())"
| "whenTruthy Undefined validate = resolve ()"
| "whenTruthy Null validate = resolve ()"

subsection \<open>Queries\<close>

definition findById :: "int \<Rightarrow> IItemCategory list \<Rightarrow> IItemCategory option" where
  "findById itemCategoryId rows = find (\<lambda>c. c_id c = itemCategoryId) rows"

definition findOneById :: "int \<Rightarrow> IAccount list \<Rightarrow> IAccount option" where
  "findOneById accountId rows = find (\<lambda>a. account_id a = accountId) rows"

text \<open>
  \<open>findOne('name', categoryName)\<close> with the \<open>onBuild\<close> hook of
  \<open>validateCategoryNameUniquiness\<close>: \<open>whereNot('id', notCategoryId)\<close> is added only
  when \<open>notCategoryId\<close> is truthy.
\<close>

definition findOneByName :: "string \<Rightarrow> optional_number \<Rightarrow> IItemCategory list \<Rightarrow> IItemCategory option" where
  "findOneByName categoryName notCategoryId rows =
     find (\<lambda>c. c_name c = categoryName \<and>
               (case notCategoryId of
                  Num n \<Rightarrow> (if n \<noteq> 0 then c_id c \<noteq> n else True)
                | Undefined \<Rightarrow> True
                | Null \<Rightarrow> True)) rows"

text \<open>A write query: it changes the tenant's database and is recorded once complete.\<close>

definition persist :: "int \<Rightarrow> (tenant_models \<Rightarrow> tenant_models) \<Rightarrow> unit async" where
  "persist tenantId f w =
     (let db = f (tenants w tenantId)
      in (Inr (), w\<lparr>tenants := (tenants w)(tenantId := db),
                    journal := journal w @ [Persist tenantId db]\<rparr>))"

definition dispatch :: "event \<Rightarrow> unit async" where
  "dispatch ev w = (Inr (), w\<lparr>journal := journal w @ [Dispatch ev]\<rparr>)"

text \<open>A column of a new row: an absent or null property is stored as NULL.\<close>

fun column :: "optional_number \<Rightarrow> int option" where
  "column Undefined = None"
| "column Null = None"
| "column (Num n) = Some n"

text \<open>A column under \<open>patch\<close>: an absent property leaves the column as it is.\<close>

fun patchColumn :: "optional_number \<Rightarrow> int option \<Rightarrow> int option" where
  "patchColumn Undefined old = old"
| "patchColumn Null old = None"
| "patchColumn (Num n) old = Some n"

definition newRow :: "int \<Rightarrow> ItemCategoryObject \<Rightarrow> IItemCategory" where
  "newRow rowId obj =
     \<lparr>c_id = rowId, c_name = name obj,
      c_sellAccountId = column (sellAccountId obj),
      c_costAccountId = column (costAccountId obj),
      c_inventoryAccountId = column (inventoryAccountId obj),
      c_userId = userId obj\<rparr>"

definition insertRow :: "ItemCategoryObject \<Rightarrow> tenant_models \<Rightarrow> tenant_models" where
  "insertRow obj db =
     db\<lparr>ItemCategory := ItemCategory db @ [newRow (ItemCategory_autoinc db) obj],
        ItemCategory_autoinc := ItemCategory_autoinc db + 1\<rparr>"

definition patchRow :: "ItemCategoryObject \<Rightarrow> IItemCategory \<Rightarrow> IItemCategory" where
  "patchRow obj c =
     c\<lparr>c_name := name obj,
       c_sellAccountId := patchColumn (sellAccountId obj) (c_sellAccountId c),
       c_costAccountId := patchColumn (costAccountId obj) (c_costAccountId c),
       c_inventoryAccountId := patchColumn (inventoryAccountId obj) (c_inventoryAccountId c),
       c_userId := userId obj\<rparr>"

definition patchById :: "int \<Rightarrow> ItemCategoryObject \<Rightarrow> tenant_models \<Rightarrow> tenant_models" where
  "patchById itemCategoryId obj db =
     db\<lparr>ItemCategory :=
          map (\<lambda>c. if c_id c = itemCategoryId then patchRow obj c else c) (ItemCategory db)\<rparr>"

definition deleteById :: "int \<Rightarrow> tenant_models \<Rightarrow> tenant_models" where
  "deleteById itemCategoryId db =
     db\<lparr>ItemCategory := filter (\<lambda>c. c_id c \<noteq> itemCategoryId) (ItemCategory db)\<rparr>"

definition deleteWhereIn :: "int list \<Rightarrow> tenant_models \<Rightarrow> tenant_models" where
  "deleteWhereIn ids db =
     db\<lparr>ItemCategory := filter (\<lambda>c. c_id c \<notin> set ids) (ItemCategory db)\<rparr>"

text \<open>
  \<open>Item.query().whereIn('category_id', ids).patch({ category_id: null })\<close>: a row
  whose \<open>category_id\<close> is NULL matches no \<open>whereIn\<close>.
\<close>

definition inCategories :: "int list \<Rightarrow> IItem \<Rightarrow> bool" where
  "inCategories ids it = (case category_id it of None \<Rightarrow> False | Some c \<Rightarrow> c \<in> set ids)"

definition patchItemsWhereIn :: "int list \<Rightarrow> tenant_models \<Rightarrow> tenant_models" where
  "patchItemsWhereIn ids db =
     db\<lparr>Item := map (\<lambda>it. if inCategories ids it then it\<lparr>category_id := None\<rparr> else it) (Item db)\<rparr>"

text \<open>lodash \<open>difference\<close>: the values of the first array that the second lacks.\<close>

definition difference :: "int list \<Rightarrow> int list \<Rightarrow> int list" where
  "difference xs ys = filter (\<lambda>x. x \<notin> set ys) xs"

subsection \<open>The service\<close>

text \<open>
  The methods of \<open>ItemCategoriesService\<close>, statement by statement. The calls of
  the logger change nothing the service reads and are left out; a query reads or writes
  the tables of the tenant whose id the method was given.
\<close>

definition getItemCategoryOrThrowError :: "int \<Rightarrow> int \<Rightarrow> IItemCategory async" where
  "getItemCategoryOrThrowError tenantId itemCategoryId w =
     (case findById itemCategoryId (ItemCategory (tenants w tenantId)) of
        None \<Rightarrow> throw CATEGORY_NOT_FOUND w
      | Some category \<Rightarrow> resolve category w)"

definition transformOTDToObject :: "IItemCategoryOTD \<Rightarrow> ISystemUser \<Rightarrow> ItemCategoryObject" where
  "transformOTDToObject itemCategoryOTD authorizedUser =
     \<lparr>name = name itemCategoryOTD,
      sellAccountId = sellAccountId itemCategoryOTD,
      costAccountId = costAccountId itemCategoryOTD,
      inventoryAccountId = inventoryAccountId itemCategoryOTD,
      userId = user_id authorizedUser\<rparr>"

definition validateCategoryNameUniquiness :: "int \<Rightarrow> string \<Rightarrow> optional_number \<Rightarrow> unit async" where
  "validateCategoryNameUniquiness tenantId categoryName notCategoryId w =
     (case findOneByName categoryName notCategoryId (ItemCategory (tenants w tenantId)) of
        Some foundItemCategory \<Rightarrow> throw CATEGORY_NAME_EXISTS w
      | None \<Rightarrow> resolve () w)"

definition validateSellAccount :: "int \<Rightarrow> int \<Rightarrow> unit async" where
  "validateSellAccount tenantId sellAccId w =
     (case findOneById sellAccId (Account (tenants w tenantId)) of
        None \<Rightarrow> throw SELL_ACCOUNT_NOT_FOUND w
      | Some foundAccount \<Rightarrow>
          if \<not> isRootType foundAccount INCOME then throw SELL_ACCOUNT_NOT_INCOME w
          else resolve () w)"

definition validateCostAccount :: "int \<Rightarrow> int \<Rightarrow> unit async" where
  "validateCostAccount tenantId costAccId w =
     (case findOneById costAccId (Account (tenants w tenantId)) of
        None \<Rightarrow> throw COST_ACCOUNT_NOT_FOUMD w
      | Some foundAccount \<Rightarrow>
          if \<not> isRootType foundAccount EXPENSE then throw COST_ACCOUNT_NOT_COGS w
          else resolve () w)"

definition validateInventoryAccount :: "int \<Rightarrow> int \<Rightarrow> unit async" where
  "validateInventoryAccount tenantId inventoryAccId w =
     (case findOneById inventoryAccId (Account (tenants w tenantId)) of
        None \<Rightarrow> throw INVENTORY_ACCOUNT_NOT_FOUND w
      | Some foundAccount \<Rightarrow>
          if \<not> isAccountType foundAccount ACCOUNT_TYPE_INVENTORY
          then throw INVENTORY_ACCOUNT_NOT_INVENTORY w
          else resolve () w)"

text \<open>\<open>ItemCategory.query().insert({ ...itemCategoryObj })\<close>: the inserted row is returned.\<close>

definition insertItemCategory :: "int \<Rightarrow> ItemCategoryObject \<Rightarrow> IItemCategory async" where
  "insertItemCategory tenantId obj w =
     (let itemCategory = newRow (ItemCategory_autoinc (tenants w tenantId)) obj
      in await (persist tenantId (insertRow obj)) (\<lambda>_. resolve itemCategory) w)"

text \<open>
  \<open>patchAndFetchById\<close>: the patched row is fetched and returned (\<open>undefined\<close>, here
  \<open>None\<close>, when no row has the id).
\<close>

definition patchAndFetchById :: "int \<Rightarrow> int \<Rightarrow> ItemCategoryObject \<Rightarrow> IItemCategory option async" where
  "patchAndFetchById tenantId itemCategoryId obj =
     await (persist tenantId (patchById itemCategoryId obj))
       (\<lambda>_ w. resolve (findById itemCategoryId (ItemCategory (tenants w tenantId))) w)"

definition newItemCategory :: "int \<Rightarrow> IItemCategoryOTD \<Rightarrow> ISystemUser \<Rightarrow> IItemCategory async" where
  "newItemCategory tenantId itemCategoryOTD authorizedUser =
     await (validateCategoryNameUniquiness tenantId (name itemCategoryOTD) Undefined) (\<lambda>_.
     await (whenTruthy (sellAccountId itemCategoryOTD) (validateSellAccount tenantId)) (\<lambda>_.
     await (whenTruthy (costAccountId itemCategoryOTD) (validateCostAccount tenantId)) (\<lambda>_.
     await (whenTruthy (inventoryAccountId itemCategoryOTD) (validateInventoryAccount tenantId)) (\<lambda>_.
     await (insertItemCategory tenantId (transformOTDToObject itemCategoryOTD authorizedUser))
       (\<lambda>itemCategory.
     await (dispatch onCreated) (\<lambda>_.
     resolve itemCategory))))))"

definition editItemCategory ::
  "int \<Rightarrow> int \<Rightarrow> IItemCategoryOTD \<Rightarrow> ISystemUser \<Rightarrow> IItemCategory option async" where
  "editItemCategory tenantId itemCategoryId itemCategoryOTD authorizedUser =
     await (getItemCategoryOrThrowError tenantId itemCategoryId) (\<lambda>oldItemCategory.
     await (validateCategoryNameUniquiness tenantId (name itemCategoryOTD) (Num itemCategoryId)) (\<lambda>_.
     await (whenTruthy (sellAccountId itemCategoryOTD) (validateSellAccount tenantId)) (\<lambda>_.
     await (whenTruthy (costAccountId itemCategoryOTD) (validateCostAccount tenantId)) (\<lambda>_.
     await (whenTruthy (inventoryAccountId itemCategoryOTD) (validateInventoryAccount tenantId)) (\<lambda>_.
     await (patchAndFetchById tenantId itemCategoryId
              (transformOTDToObject itemCategoryOTD authorizedUser)) (\<lambda>itemCategory.
     await (dispatch onEdited) (\<lambda>_.
     resolve itemCategory)))))))"

definition unassociateItemsWithCategories :: "int \<Rightarrow> number_or_array \<Rightarrow> unit async" where
  "unassociateItemsWithCategories tenantId itemCategoryId =
     (let ids = (case itemCategoryId of Many xs \<Rightarrow> xs | One x \<Rightarrow> [x])
      in persist tenantId (patchItemsWhereIn ids))"

definition deleteItemCategory :: "int \<Rightarrow> int \<Rightarrow> ISystemUser \<Rightarrow> unit async" where
  "deleteItemCategory tenantId itemCategoryId authorizedUser =
     await (getItemCategoryOrThrowError tenantId itemCategoryId) (\<lambda>_.
     await (unassociateItemsWithCategories tenantId (One itemCategoryId)) (\<lambda>_.
     await (persist tenantId (deleteById itemCategoryId)) (\<lambda>_.
     dispatch onDeleted)))"

definition getItemCategoriesOrThrowError :: "int \<Rightarrow> int list \<Rightarrow> unit async" where
  "getItemCategoriesOrThrowError tenantId itemCategoriesIds w =
     (let itemCategories = filter (\<lambda>c. c_id c \<in> set itemCategoriesIds)
                             (ItemCategory (tenants w tenantId));
          storedItemCategoriesIds = map c_id itemCategories;
          notFoundCategories = difference itemCategoriesIds storedItemCategoriesIds
      in if length notFoundCategories > 0 then throw ITEM_CATEGORIES_NOT_FOUND w
         else resolve () w)"

definition deleteItemCategories :: "int \<Rightarrow> int list \<Rightarrow> ISystemUser \<Rightarrow> unit async" where
  "deleteItemCategories tenantId itemCategoriesIds authorizedUser =
     await (getItemCategoriesOrThrowError tenantId itemCategoriesIds) (\<lambda>_.
     await (unassociateItemsWithCategories tenantId (Many itemCategoriesIds)) (\<lambda>_.
     await (persist tenantId (deleteWhereIn itemCategoriesIds)) (\<lambda>_.
     dispatch onBulkDeleted)))"

subsection \<open>The account rules, in the words of the specification\<close>

text \<open>
  The rule for one account reference, as the specification words it: a reference that
  is supplied (a truthy id) must name an existing account (some stored account has the
  id), else the not-found error of that reference; the account must have the required
  role, else the role-mismatch error of that reference; otherwise the rule is met.
\<close>

definition spec_accountRule ::
  "optional_number \<Rightarrow> IAccount list \<Rightarrow> (IAccount \<Rightarrow> bool) \<Rightarrow> ERRORS \<Rightarrow> ERRORS \<Rightarrow> ERRORS option" where
  "spec_accountRule reference accounts hasRole notFound wrongRole =
     (if \<not> truthy reference then None
      else case reference of
             Num n \<Rightarrow> (case filter (\<lambda>a. account_id a = n) accounts of
                         [] \<Rightarrow> Some notFound
                       | a # others \<Rightarrow> if hasRole a then None else Some wrongRole)
           | Undefined \<Rightarrow> None
           | Null \<Rightarrow> None)"

text \<open>
  The three references in turn (sell: income root type; cost: expense root type;
  inventory: the inventory account type): the first rule that is violated gives the
  error, \<open>None\<close> when all are met.
\<close>

definition spec_accountChecks :: "IItemCategoryOTD \<Rightarrow> IAccount list \<Rightarrow> ERRORS option" where
  "spec_accountChecks otd accounts =
     (case spec_accountRule (sellAccountId otd) accounts (\<lambda>a. accountRootType a = INCOME)
             SELL_ACCOUNT_NOT_FOUND SELL_ACCOUNT_NOT_INCOME of
        Some e \<Rightarrow> Some e
      | None \<Rightarrow>
        (case spec_accountRule (costAccountId otd) accounts (\<lambda>a. accountRootType a = EXPENSE)
                COST_ACCOUNT_NOT_FOUMD COST_ACCOUNT_NOT_COGS of
           Some e \<Rightarrow> Some e
         | None \<Rightarrow>
           spec_accountRule (inventoryAccountId otd) accounts
             (\<lambda>a. accountType a = ACCOUNT_TYPE_INVENTORY)
             INVENTORY_ACCOUNT_NOT_FOUND INVENTORY_ACCOUNT_NOT_INVENTORY))"

text \<open>An entry of the journal that is a completed write.\<close>

fun isPersist :: "effect \<Rightarrow> bool" where
  "isPersist (Persist tenantId db) = True"
| "isPersist (Dispatch ev) = False"

section \<open>Profit and loss statement (ProfitLossSheet.ts)\<close>

text \<open>
  The statement types of the interface file, with the amount of a total (its formatted
  text and currency code, and the per-period totals, are left out).
\<close>

record IProfitLossSheetTotal =
  amount :: real

record IProfitLossSheetAccount =
  pl_account_id :: int
  pl_account_name :: string
  accountTotal :: IProfitLossSheetTotal

record IProfitLossSheetAccountsSection =
  sectionTitle :: string
  accounts :: "IProfitLossSheetAccount list"
  sectionTotal :: IProfitLossSheetTotal

record IProfitLossSheetStatement =
  income :: IProfitLossSheetAccountsSection
  costOfSales :: IProfitLossSheetAccountsSection
  expenses :: IProfitLossSheetAccountsSection
  otherExpenses :: IProfitLossSheetAccountsSection
  netIncome :: IProfitLossSheetTotal
  operatingProfit :: IProfitLossSheetTotal
  grossProfit :: IProfitLossSheetTotal

text \<open>
  Modelled from the spec: the service that shapes the statement is not among the
  sources (only its interface is). A section sums the totals of its accounts.
\<close>

definition accountsSection :: "string \<Rightarrow> IProfitLossSheetAccount list \<Rightarrow> IProfitLossSheetAccountsSection" where
  "accountsSection title accs =
     \<lparr>sectionTitle = title, accounts = accs,
      sectionTotal = \<lparr>amount = sum_list (map (\<lambda>a. amount (accountTotal a)) accs)\<rparr>\<rparr>"

text \<open>
  Modelled from the spec: the statement of the four sections; gross profit is income
  less cost of sales, operating profit is gross profit less expenses, net income is
  operating profit less other expenses.
\<close>

definition profitLossStatement ::
  "IProfitLossSheetAccount list \<Rightarrow> IProfitLossSheetAccount list \<Rightarrow>
   IProfitLossSheetAccount list \<Rightarrow> IProfitLossSheetAccount list \<Rightarrow> IProfitLossSheetStatement" where
  "profitLossStatement incomeAccounts costOfSalesAccounts expensesAccounts otherExpensesAccounts =
     (let incomeSection = accountsSection ''Income'' incomeAccounts;
          costOfSalesSection = accountsSection ''Cost of sales'' costOfSalesAccounts;
          expensesSection = accountsSection ''Expenses'' expensesAccounts;
          otherExpensesSection = accountsSection ''Other expenses'' otherExpensesAccounts;
          gross = amount (sectionTotal incomeSection) - amount (sectionTotal costOfSalesSection);
          operating = gross - amount (sectionTotal expensesSection);
          net = operating - amount (sectionTotal otherExpensesSection)
      in \<lparr>income = incomeSection, costOfSales = costOfSalesSection,
          expenses = expensesSection, otherExpenses = otherExpensesSection,
          netIncome = \<lparr>amount = net\<rparr>,
          operatingProfit = \<lparr>amount = operating\<rparr>,
          grossProfit = \<lparr>amount = gross\<rparr>\<rparr>)"

section \<open>Example data\<close>

text \<open>
  A tenant with two categories, three items and four accounts, a second tenant with
  nothing stored, and two users.
\<close>

definition exampleModels :: tenant_models where
  "exampleModels =
     \<lparr>ItemCategory =
        [\<lparr>c_id = 1, c_name = ''Tools'', c_sellAccountId = None, c_costAccountId = None,
          c_inventoryAccountId = None, c_userId = 10\<rparr>,
         \<lparr>c_id = 2, c_name = ''Paint'', c_sellAccountId = Some 1, c_costAccountId = None,
          c_inventoryAccountId = None, c_userId = 10\<rparr>],
      Item =
        [\<lparr>item_id = 100, item_name = ''Hammer'', category_id = Some 1\<rparr>,
         \<lparr>item_id = 101, item_name = ''Brush'', category_id = Some 2\<rparr>,
         \<lparr>item_id = 102, item_name = ''Nail'', category_id = None\<rparr>],
      Account =
        [\<lparr>account_id = 1, accountType = ''income'', accountRootType = INCOME\<rparr>,
         \<lparr>account_id = 2, accountType = ''cost-of-goods-sold'', accountRootType = EXPENSE\<rparr>,
         \<lparr>account_id = 3, accountType = ''inventory'', accountRootType = ASSET\<rparr>,
         \<lparr>account_id = 4, accountType = ''bank'', accountRootType = ASSET\<rparr>],
      ItemCategory_autoinc = 3\<rparr>"

definition emptyModels :: tenant_models where
  "emptyModels = \<lparr>ItemCategory = [], Item = [], Account = [], ItemCategory_autoinc = 1\<rparr>"

definition exampleWorld :: world where
  "exampleWorld =
     \<lparr>tenants = (\<lambda>tenantId. if tenantId = 1 then exampleModels else emptyModels),
      journal = []\<rparr>"

definition alice :: ISystemUser where
  "alice = \<lparr>user_id = 10\<rparr>"

definition bob :: ISystemUser where
  "bob = \<lparr>user_id = 11\<rparr>"

definition namedOTD :: "string \<Rightarrow> IItemCategoryOTD" where
  "namedOTD categoryName =
     \<lparr>name = categoryName, sellAccountId = Undefined, costAccountId = Undefined,
      inventoryAccountId = Undefined\<rparr>"

definition plAccount :: "int \<Rightarrow> real \<Rightarrow> IProfitLossSheetAccount" where
  "plAccount accId x =
     \<lparr>pl_account_id = accId, pl_account_name = ''account'', accountTotal = \<lparr>amount = x\<rparr>\<rparr>"

definition wrongSellOTD :: IItemCategoryOTD where
  "wrongSellOTD = \<lparr>name = ''Brushes'', sellAccountId = Num 2, costAccountId = Undefined,
      inventoryAccountId = Undefined\<rparr>"

definition zeroIdsOTD :: IItemCategoryOTD where
  "zeroIdsOTD = \<lparr>name = ''Brushes'', sellAccountId = Num 0, costAccountId = Null,
      inventoryAccountId = Undefined\<rparr>"

definition takenNameOTD :: IItemCategoryOTD where
  "takenNameOTD = \<lparr>name = ''Tools'', sellAccountId = Num 9, costAccountId = Undefined,
      inventoryAccountId = Undefined\<rparr>"

definition accountsOTD :: "int \<Rightarrow> int \<Rightarrow> int \<Rightarrow> IItemCategoryOTD" where
  "accountsOTD sellId costId inventoryId =
     \<lparr>name = ''Brushes'', sellAccountId = Num sellId, costAccountId = Num costId,
      inventoryAccountId = Num inventoryId\<rparr>"

section \<open>What each method does, as one equation\<close>

text \<open>
  Each validation either throws its error or resolves, and leaves the state as it found
  it; each method is the chain of its validations followed by its writes and its event.
  The equations below say so for a whole method, and the claims are proved from them.
\<close>

lemma find_Some_ex: "(find P xs \<noteq> None) = (\<exists>x\<in>set xs. P x)"
  by (auto simp: find_None_iff)

lemma case_option_if: "(case x of None \<Rightarrow> a | Some y \<Rightarrow> b) = (if x \<noteq> None then b else a)"
  by (cases x) auto

lemma validateCategoryNameUniquiness_eq:
  "validateCategoryNameUniquiness t n x w =
     ((if \<exists>c\<in>set (ItemCategory (tenants w t)). c_name c = n \<and> (truthy x \<longrightarrow> x \<noteq> Num (c_id c))
       then Inl CATEGORY_NAME_EXISTS else Inr ()), w)"
  unfolding validateCategoryNameUniquiness_def findOneByName_def case_option_if find_Some_ex
  by (cases x) (auto simp: throw_def resolve_def)

lemma findOneById_filter:
  "findOneById n accs =
     (case filter (\<lambda>a. account_id a = n) accs of [] \<Rightarrow> None | a # others \<Rightarrow> Some a)"
  unfolding findOneById_def by (induction accs) auto

lemma validateSellAccount_eq:
  "validateSellAccount t i w =
     ((case findOneById i (Account (tenants w t)) of
         None \<Rightarrow> Inl SELL_ACCOUNT_NOT_FOUND
       | Some a \<Rightarrow> if accountRootType a = INCOME then Inr () else Inl SELL_ACCOUNT_NOT_INCOME), w)"
  by (simp add: validateSellAccount_def throw_def resolve_def isRootType_def split: option.splits)

lemma validateCostAccount_eq:
  "validateCostAccount t i w =
     ((case findOneById i (Account (tenants w t)) of
         None \<Rightarrow> Inl COST_ACCOUNT_NOT_FOUMD
       | Some a \<Rightarrow> if accountRootType a = EXPENSE then Inr () else Inl COST_ACCOUNT_NOT_COGS), w)"
  by (simp add: validateCostAccount_def throw_def resolve_def isRootType_def split: option.splits)

lemma validateInventoryAccount_eq:
  "validateInventoryAccount t i w =
     ((case findOneById i (Account (tenants w t)) of
         None \<Rightarrow> Inl INVENTORY_ACCOUNT_NOT_FOUND
       | Some a \<Rightarrow> if accountType a = ACCOUNT_TYPE_INVENTORY then Inr ()
                   else Inl INVENTORY_ACCOUNT_NOT_INVENTORY), w)"
  by (simp add: validateInventoryAccount_def throw_def resolve_def isAccountType_def
      split: option.splits)

lemma whenTruthy_sell:
  "whenTruthy x (validateSellAccount t) w =
     ((case spec_accountRule x (Account (tenants w t)) (\<lambda>a. accountRootType a = INCOME)
              SELL_ACCOUNT_NOT_FOUND SELL_ACCOUNT_NOT_INCOME of
         Some e \<Rightarrow> Inl e | None \<Rightarrow> Inr ()), w)"
  by (cases x)
     (auto simp: spec_accountRule_def validateSellAccount_eq findOneById_filter resolve_def
        split: option.splits list.splits)

lemma whenTruthy_cost:
  "whenTruthy x (validateCostAccount t) w =
     ((case spec_accountRule x (Account (tenants w t)) (\<lambda>a. accountRootType a = EXPENSE)
              COST_ACCOUNT_NOT_FOUMD COST_ACCOUNT_NOT_COGS of
         Some e \<Rightarrow> Inl e | None \<Rightarrow> Inr ()), w)"
  by (cases x)
     (auto simp: spec_accountRule_def validateCostAccount_eq findOneById_filter resolve_def
        split: option.splits list.splits)

lemma whenTruthy_inventory:
  "whenTruthy x (validateInventoryAccount t) w =
     ((case spec_accountRule x (Account (tenants w t)) (\<lambda>a. accountType a = ACCOUNT_TYPE_INVENTORY)
              INVENTORY_ACCOUNT_NOT_FOUND INVENTORY_ACCOUNT_NOT_INVENTORY of
         Some e \<Rightarrow> Inl e | None \<Rightarrow> Inr ()), w)"
  by (cases x)
     (auto simp: spec_accountRule_def validateInventoryAccount_eq findOneById_filter resolve_def
        split: option.splits list.splits)

lemma accountValidations_eq:
  "await (whenTruthy (sellAccountId otd) (validateSellAccount t)) (\<lambda>_.
   await (whenTruthy (costAccountId otd) (validateCostAccount t)) (\<lambda>_.
   await (whenTruthy (inventoryAccountId otd) (validateInventoryAccount t)) k)) w =
     (case spec_accountChecks otd (Account (tenants w t)) of
        Some e \<Rightarrow> (Inl e, w)
      | None \<Rightarrow> k () w)"
  by (simp add: await_def whenTruthy_sell whenTruthy_cost whenTruthy_inventory
      spec_accountChecks_def split: option.splits)

lemma newItemCategory_eq:
  "newItemCategory t otd u w =
     (if \<exists>c\<in>set (ItemCategory (tenants w t)). c_name c = name otd
      then (Inl CATEGORY_NAME_EXISTS, w)
      else case spec_accountChecks otd (Account (tenants w t)) of
             Some e \<Rightarrow> (Inl e, w)
           | None \<Rightarrow>
               (Inr (newRow (ItemCategory_autoinc (tenants w t)) (transformOTDToObject otd u)),
                w\<lparr>tenants := (tenants w)(t := insertRow (transformOTDToObject otd u) (tenants w t)),
                  journal := journal w @
                    [Persist t (insertRow (transformOTDToObject otd u) (tenants w t)),
                     Dispatch onCreated]\<rparr>))"
proof -
  have ins: "await (insertItemCategory t obj) (\<lambda>itemCategory. await (dispatch onCreated) (\<lambda>_. resolve itemCategory)) w
    = (Inr (newRow (ItemCategory_autoinc (tenants w t)) obj),
                w\<lparr>tenants := (tenants w)(t := insertRow obj (tenants w t)),
                  journal := journal w @ [Persist t (insertRow obj (tenants w t)), Dispatch onCreated]\<rparr>)" for obj
    by (simp add: await_def insertItemCategory_def persist_def dispatch_def resolve_def Let_def)
  show ?thesis
    unfolding newItemCategory_def
    apply (subst await_def)
    apply (simp only: validateCategoryNameUniquiness_eq accountValidations_eq ins)
    apply (simp add: ins split: option.splits)
    done
qed


lemma getItemCategoryOrThrowError_eq:
  "getItemCategoryOrThrowError t i w =
     ((case findById i (ItemCategory (tenants w t)) of
         None \<Rightarrow> Inl CATEGORY_NOT_FOUND | Some c \<Rightarrow> Inr c), w)"
  by (simp add: getItemCategoryOrThrowError_def throw_def resolve_def split: option.splits)

lemma editItemCategory_eq:
  "editItemCategory t i otd u w =
     (if findById i (ItemCategory (tenants w t)) = None then (Inl CATEGORY_NOT_FOUND, w)
      else if \<exists>c\<in>set (ItemCategory (tenants w t)). c_name c = name otd \<and> (i \<noteq> 0 \<longrightarrow> c_id c \<noteq> i)
      then (Inl CATEGORY_NAME_EXISTS, w)
      else case spec_accountChecks otd (Account (tenants w t)) of
             Some e \<Rightarrow> (Inl e, w)
           | None \<Rightarrow>
               (Inr (findById i (ItemCategory (patchById i (transformOTDToObject otd u) (tenants w t)))),
                w\<lparr>tenants := (tenants w)(t := patchById i (transformOTDToObject otd u) (tenants w t)),
                  journal := journal w @
                    [Persist t (patchById i (transformOTDToObject otd u) (tenants w t)),
                     Dispatch onEdited]\<rparr>))"
proof -
  have upd: "await (patchAndFetchById t i obj)
               (\<lambda>itemCategory. await (dispatch onEdited) (\<lambda>_. resolve itemCategory)) w =
             (Inr (findById i (ItemCategory (patchById i obj (tenants w t)))),
              w\<lparr>tenants := (tenants w)(t := patchById i obj (tenants w t)),
                journal := journal w @ [Persist t (patchById i obj (tenants w t)), Dispatch onEdited]\<rparr>)"
    for obj
    by (simp add: await_def patchAndFetchById_def persist_def dispatch_def resolve_def Let_def)
  have name: "(\<exists>c\<in>set rows. c_name c = n \<and> (truthy (Num i) \<longrightarrow> Num i \<noteq> Num (c_id c))) =
              (\<exists>c\<in>set rows. c_name c = n \<and> (i \<noteq> 0 \<longrightarrow> c_id c \<noteq> i))" for rows :: "IItemCategory list" and n
    by auto
  show ?thesis
    unfolding editItemCategory_def
    apply (subst await_def)
    apply (simp only: getItemCategoryOrThrowError_eq)
    apply (cases "findById i (ItemCategory (tenants w t))")
     apply simp
    apply (subst await_def)
    apply (simp only: validateCategoryNameUniquiness_eq name accountValidations_eq)
    apply (auto simp add: upd split: option.splits)
    done
qed

lemma deleteItemCategory_eq:
  "deleteItemCategory t i u w =
     (if findById i (ItemCategory (tenants w t)) = None then (Inl CATEGORY_NOT_FOUND, w)
      else (Inr (),
            w\<lparr>tenants := (tenants w)(t := deleteById i (patchItemsWhereIn [i] (tenants w t))),
              journal := journal w @
                [Persist t (patchItemsWhereIn [i] (tenants w t)),
                 Persist t (deleteById i (patchItemsWhereIn [i] (tenants w t))),
                 Dispatch onDeleted]\<rparr>))"
  by (cases "findById i (ItemCategory (tenants w t))")
     (simp_all add: deleteItemCategory_def await_def getItemCategoryOrThrowError_eq
        unassociateItemsWithCategories_def persist_def dispatch_def Let_def)

lemma notFound_iff:
  "(length (difference ids (map c_id (filter (\<lambda>c. c_id c \<in> set ids) rows))) > 0) =
   (\<exists>x\<in>set ids. x \<notin> c_id ` set rows)"
  by (auto simp: difference_def filter_empty_conv)

lemma getItemCategoriesOrThrowError_eq:
  "getItemCategoriesOrThrowError t ids w =
     ((if \<exists>x\<in>set ids. x \<notin> c_id ` set (ItemCategory (tenants w t))
       then Inl ITEM_CATEGORIES_NOT_FOUND else Inr ()), w)"
  unfolding getItemCategoriesOrThrowError_def Let_def notFound_iff
  by (simp add: throw_def resolve_def)

lemma deleteItemCategories_eq:
  "deleteItemCategories t ids u w =
     (if \<exists>x\<in>set ids. x \<notin> c_id ` set (ItemCategory (tenants w t))
      then (Inl ITEM_CATEGORIES_NOT_FOUND, w)
      else (Inr (),
            w\<lparr>tenants := (tenants w)(t := deleteWhereIn ids (patchItemsWhereIn ids (tenants w t))),
              journal := journal w @
                [Persist t (patchItemsWhereIn ids (tenants w t)),
                 Persist t (deleteWhereIn ids (patchItemsWhereIn ids (tenants w t))),
                 Dispatch onBulkDeleted]\<rparr>))"
  unfolding deleteItemCategories_def
  apply (subst await_def)
  apply (simp only: getItemCategoriesOrThrowError_eq)
  apply (simp add: await_def unassociateItemsWithCategories_def persist_def dispatch_def Let_def)
  done

lemma spec_accountRule_errors:
  "spec_accountRule x accs hasRole notFound wrongRole = Some e \<Longrightarrow> e = notFound \<or> e = wrongRole"
  by (auto simp: spec_accountRule_def split: if_splits optional_number.splits list.splits)

lemma spec_accountRule_falsy:
  "\<not> truthy x \<Longrightarrow> spec_accountRule x accs hasRole notFound wrongRole = None"
  by (simp add: spec_accountRule_def)

lemma spec_accountChecks_errors:
  "spec_accountChecks otd accs = Some e \<Longrightarrow>
     e \<in> {SELL_ACCOUNT_NOT_FOUND, SELL_ACCOUNT_NOT_INCOME, COST_ACCOUNT_NOT_FOUMD,
          COST_ACCOUNT_NOT_COGS, INVENTORY_ACCOUNT_NOT_FOUND, INVENTORY_ACCOUNT_NOT_INVENTORY}"
  unfolding spec_accountChecks_def
  by (auto split: option.splits dest: spec_accountRule_errors)

lemma findById_None_iff: "(findById i rows = None) = (\<not> (\<exists>c\<in>set rows. c_id c = i))"
  by (auto simp: findById_def find_None_iff)

lemma patchItemsWhereIn_single:
  "Item (patchItemsWhereIn [i] db) =
     map (\<lambda>it. if category_id it = Some i then it\<lparr>category_id := None\<rparr> else it) (Item db)"
  by (auto simp: patchItemsWhereIn_def inCategories_def split: option.splits)

lemma unassociateItemsWithCategories_eq:
  "unassociateItemsWithCategories t x w =
      (Inr (), w\<lparr>tenants := (tenants w)
                    (t := patchItemsWhereIn (case x of One n \<Rightarrow> [n] | Many ns \<Rightarrow> ns) (tenants w t)),
                 journal := journal w @
                    [Persist t (patchItemsWhereIn (case x of One n \<Rightarrow> [n] | Many ns \<Rightarrow> ns)
                       (tenants w t))]\<rparr>)"
  by (cases x) (simp_all add: unassociateItemsWithCategories_def persist_def Let_def)

lemma inCategories_iff: "inCategories ids it = (category_id it \<in> Some ` set ids)"
  by (cases "category_id it") (auto simp: inCategories_def)

lemma patchItemsWhereIn_nth:
  "k < length (Item db) \<Longrightarrow>
   Item (patchItemsWhereIn ids db) ! k =
     (if category_id (Item db ! k) \<in> Some ` set ids then (Item db ! k)\<lparr>category_id := None\<rparr>
      else Item db ! k)"
  by (simp add: patchItemsWhereIn_def inCategories_iff)

lemma spec_accountChecks_sell:
  "\<not> truthy (sellAccountId otd) \<Longrightarrow>
   spec_accountChecks otd accs \<notin> {Some SELL_ACCOUNT_NOT_FOUND, Some SELL_ACCOUNT_NOT_INCOME}"
  unfolding spec_accountChecks_def
  by (auto simp: spec_accountRule_falsy split: option.splits dest!: spec_accountRule_errors)

lemma spec_accountChecks_cost:
  "\<not> truthy (costAccountId otd) \<Longrightarrow>
   spec_accountChecks otd accs \<notin> {Some COST_ACCOUNT_NOT_FOUMD, Some COST_ACCOUNT_NOT_COGS}"
  unfolding spec_accountChecks_def
  by (auto simp: spec_accountRule_falsy split: option.splits dest!: spec_accountRule_errors)

lemma spec_accountChecks_inventory:
  "\<not> truthy (inventoryAccountId otd) \<Longrightarrow>
   spec_accountChecks otd accs \<notin>
     {Some INVENTORY_ACCOUNT_NOT_FOUND, Some INVENTORY_ACCOUNT_NOT_INVENTORY}"
  unfolding spec_accountChecks_def
  by (auto simp: spec_accountRule_falsy split: option.splits dest!: spec_accountRule_errors)

lemma newItemCategory_account_error:
  "fst (newItemCategory t otd u w) = Inl e \<Longrightarrow> e \<noteq> CATEGORY_NAME_EXISTS \<Longrightarrow>
   spec_accountChecks otd (Account (tenants w t)) = Some e"
  by (auto simp: newItemCategory_eq split: if_splits option.splits)

lemma editItemCategory_account_error:
  "fst (editItemCategory t i otd u w) = Inl e \<Longrightarrow> e \<noteq> CATEGORY_NAME_EXISTS \<Longrightarrow>
   e \<noteq> CATEGORY_NOT_FOUND \<Longrightarrow>
   spec_accountChecks otd (Account (tenants w t)) = Some e"
  by (auto simp: editItemCategory_eq split: if_splits option.splits)

lemma patchRow_fields: "c_id (patchRow obj c) = c_id c" "c_userId (patchRow obj c) = userId obj"
  by (simp_all add: patchRow_def)

lemma patchById_userId:
  "\<forall>c\<in>set (ItemCategory (patchById i obj db)). c_id c = i \<longrightarrow> c_userId c = userId obj"
proof (intro ballI impI)
  fix c
  assume c: "c \<in> set (ItemCategory (patchById i obj db))" and i: "c_id c = i"
  from c obtain c0 where c0: "c0 \<in> set (ItemCategory db)"
    and eq: "c = (if c_id c0 = i then patchRow obj c0 else c0)"
    unfolding patchById_def by auto
  show "c_userId c = userId obj"
  proof (cases "c_id c0 = i")
    case True
    with eq show ?thesis by (simp add: patchRow_fields)
  next
    case False
    with eq i show ?thesis by simp
  qed
qed

lemma findById_Some: "findById i rows = Some c \<Longrightarrow> c \<in> set rows \<and> c_id c = i"
  by (auto simp: findById_def find_Some_iff)

lemma patchById_map_ids: "map c_id (ItemCategory (patchById i obj db)) = map c_id (ItemCategory db)"
  by (simp add: patchById_def patchRow_fields if_distrib [of c_id] cong: if_cong)

lemma patchById_ids: "c_id ` set (ItemCategory (patchById i obj db)) = c_id ` set (ItemCategory db)"
  using patchById_map_ids [of i obj db] by (metis set_map)

lemma newItemCategory_no_conflict:
  "\<not> (\<exists>c\<in>set (ItemCategory (tenants w t)). c_name c = name otd) \<Longrightarrow>
   fst (newItemCategory t otd u w) \<noteq> Inl CATEGORY_NAME_EXISTS"
  by (auto simp: newItemCategory_eq split: option.splits dest: spec_accountChecks_errors)

lemma editItemCategory_no_conflict:
  "\<exists>c\<in>set (ItemCategory (tenants w t)). c_id c = i \<Longrightarrow>
   \<not> (\<exists>c\<in>set (ItemCategory (tenants w t)). c_name c = name otd) \<Longrightarrow>
   fst (editItemCategory t i otd u w) \<notin> {Inl CATEGORY_NOT_FOUND, Inl CATEGORY_NAME_EXISTS}"
  by (auto simp: editItemCategory_eq findById_None_iff split: option.splits
      dest: spec_accountChecks_errors)

lemmas example_defs =
  exampleWorld_def exampleModels_def emptyModels_def alice_def bob_def namedOTD_def

lemma example_checks:
  "spec_accountChecks (accountsOTD 9 2 3) (Account (tenants exampleWorld 1)) = Some SELL_ACCOUNT_NOT_FOUND"
  "spec_accountChecks (accountsOTD 2 2 3) (Account (tenants exampleWorld 1)) = Some SELL_ACCOUNT_NOT_INCOME"
  "spec_accountChecks (accountsOTD 1 9 3) (Account (tenants exampleWorld 1)) = Some COST_ACCOUNT_NOT_FOUMD"
  "spec_accountChecks (accountsOTD 1 1 3) (Account (tenants exampleWorld 1)) = Some COST_ACCOUNT_NOT_COGS"
  "spec_accountChecks (accountsOTD 1 2 9) (Account (tenants exampleWorld 1)) = Some INVENTORY_ACCOUNT_NOT_FOUND"
  "spec_accountChecks (accountsOTD 1 2 4) (Account (tenants exampleWorld 1)) = Some INVENTORY_ACCOUNT_NOT_INVENTORY"
  "spec_accountChecks (accountsOTD 1 2 3) (Account (tenants exampleWorld 1)) = None"
  by (simp_all add: spec_accountChecks_def spec_accountRule_def findOneById_def accountsOTD_def
      ACCOUNT_TYPE_INVENTORY_def example_defs)

section \<open>The claims\<close>

subsection \<open>C1: the name-conflict error\<close>

text \<open>
  C1, as stated, says that every create and every edit call raises
  \<open>CATEGORY_NAME_EXISTS\<close> exactly when another category of the tenant has the
  submitted name. An edit call looks the edited category up first: with an id that
  is not stored it raises \<open>CATEGORY_NOT_FOUND\<close>, whatever the names are. Here the
  tenant has a category 1 named Tools (its first row), no category 7, and category 7 is
  edited to be named Tools: a category other than the edited one has the submitted
  name, and the error is not the name conflict.
\<close>

theorem C1_counterexample:
  "fst (editItemCategory 1 7 (namedOTD ''Tools'') alice exampleWorld) = Inl CATEGORY_NOT_FOUND \<and>
   fst (editItemCategory 1 7 (namedOTD ''Tools'') alice exampleWorld) \<noteq> Inl CATEGORY_NAME_EXISTS \<and>
   hd (ItemCategory (tenants exampleWorld 1)) \<in> set (ItemCategory (tenants exampleWorld 1)) \<and>
   c_id (hd (ItemCategory (tenants exampleWorld 1))) \<noteq> 7 \<and>
   c_name (hd (ItemCategory (tenants exampleWorld 1))) = name (namedOTD ''Tools'')"
  by (simp add: editItemCategory_eq findById_def example_defs)

text \<open>
  C1, amended: a create call raises \<open>CATEGORY_NAME_EXISTS\<close> if and only if some
  category of the same tenant has a name equal to the submitted one; an edit call on a
  stored category (with a non-zero id, as the ids of stored rows are) raises it if and
  only if some category of the same tenant other than the edited one has a name equal to
  the submitted one; an edit call on an id that is not stored fails with
  \<open>CATEGORY_NOT_FOUND\<close>, whatever the submitted name is, and changes nothing. The
  names are compared as strings, character by character.
\<close>

theorem C1_name_conflict:
  "(fst (newItemCategory t otd u w) = Inl CATEGORY_NAME_EXISTS \<longleftrightarrow>
      (\<exists>c\<in>set (ItemCategory (tenants w t)). c_name c = name otd)) \<and>
   ((\<exists>c\<in>set (ItemCategory (tenants w t)). c_id c = i) \<and> i \<noteq> 0 \<longrightarrow>
      (fst (editItemCategory t i otd' u w) = Inl CATEGORY_NAME_EXISTS \<longleftrightarrow>
         (\<exists>c\<in>set (ItemCategory (tenants w t)). c_id c \<noteq> i \<and> c_name c = name otd'))) \<and>
   (\<not> (\<exists>c\<in>set (ItemCategory (tenants w t)). c_id c = i) \<longrightarrow>
      editItemCategory t i otd' u w = (Inl CATEGORY_NOT_FOUND, w))"
proof (intro conjI impI)
  show "fst (newItemCategory t otd u w) = Inl CATEGORY_NAME_EXISTS \<longleftrightarrow>
      (\<exists>c\<in>set (ItemCategory (tenants w t)). c_name c = name otd)"
    by (auto simp: newItemCategory_eq split: option.splits dest: spec_accountChecks_errors)
next
  assume a: "(\<exists>c\<in>set (ItemCategory (tenants w t)). c_id c = i) \<and> i \<noteq> 0"
  then have ex: "findById i (ItemCategory (tenants w t)) \<noteq> None"
    by (simp add: findById_None_iff)
  from a have nz: "i \<noteq> 0" by simp
  show "fst (editItemCategory t i otd' u w) = Inl CATEGORY_NAME_EXISTS \<longleftrightarrow>
         (\<exists>c\<in>set (ItemCategory (tenants w t)). c_id c \<noteq> i \<and> c_name c = name otd')"
    using ex nz
    by (auto simp: editItemCategory_eq split: option.splits dest: spec_accountChecks_errors)
next
  assume "\<not> (\<exists>c\<in>set (ItemCategory (tenants w t)). c_id c = i)"
  then have "findById i (ItemCategory (tenants w t)) = None"
    by (simp add: findById_None_iff)
  then show "editItemCategory t i otd' u w = (Inl CATEGORY_NOT_FOUND, w)"
    by (simp add: editItemCategory_eq)
qed

text \<open>
  The theorem at the example tenant: creating a second Tools fails there and succeeds
  in the empty tenant 2; renaming category 1 to Paint (the name of category 2) fails;
  saving category 1 under its own name does not; editing the missing category 7 fails
  with \<open>CATEGORY_NOT_FOUND\<close> and leaves the state as it was.
\<close>

theorem C1_name_conflict_witness:
  "fst (newItemCategory 1 (namedOTD ''Tools'') alice exampleWorld) = Inl CATEGORY_NAME_EXISTS \<and>
   fst (newItemCategory 2 (namedOTD ''Tools'') alice exampleWorld) \<noteq> Inl CATEGORY_NAME_EXISTS \<and>
   fst (editItemCategory 1 1 (namedOTD ''Paint'') alice exampleWorld) = Inl CATEGORY_NAME_EXISTS \<and>
   fst (editItemCategory 1 1 (namedOTD ''Tools'') alice exampleWorld) \<noteq> Inl CATEGORY_NAME_EXISTS \<and>
   editItemCategory 1 7 (namedOTD ''Tools'') alice exampleWorld =
     (Inl CATEGORY_NOT_FOUND, exampleWorld)"
  using C1_name_conflict [of 1 "namedOTD ''Tools''" alice exampleWorld 1 "namedOTD ''Paint''"]
    C1_name_conflict [of 1 "namedOTD ''Tools''" alice exampleWorld 7 "namedOTD ''Tools''"]
    C1_name_conflict [of 2 "namedOTD ''Tools''" alice exampleWorld 1 "namedOTD ''Tools''"]
    C1_name_conflict [of 1 "namedOTD ''Paint''" alice exampleWorld 1 "namedOTD ''Tools''"]
  by (simp add: example_defs)

subsection \<open>C2: deleting a category\<close>

text \<open>
  C2: a call of \<open>deleteItemCategory\<close> on a stored category succeeds with two writes
  and then the event. The first write leaves the category rows as they were and clears
  \<open>category_id\<close> on every item that referenced the category, so that no item
  references it any more; the second write removes the category row and leaves the
  items as the first write left them. No item row is deleted: the item ids are the
  same, in the same order.
\<close>

theorem C2_delete_clears_then_removes:
  "\<exists>c\<in>set (ItemCategory (tenants w t)). c_id c = i \<Longrightarrow>
   \<exists>db1 db2.
     deleteItemCategory t i u w =
       (Inr (), w\<lparr>tenants := (tenants w)(t := db2),
                  journal := journal w @ [Persist t db1, Persist t db2, Dispatch onDeleted]\<rparr>) \<and>
     ItemCategory db1 = ItemCategory (tenants w t) \<and>
     Item db1 = map (\<lambda>it. if category_id it = Some i then it\<lparr>category_id := None\<rparr> else it)
                  (Item (tenants w t)) \<and>
     (\<forall>it\<in>set (Item db1). category_id it \<noteq> Some i) \<and>
     ItemCategory db2 = filter (\<lambda>c. c_id c \<noteq> i) (ItemCategory (tenants w t)) \<and>
     (\<forall>c\<in>set (ItemCategory db2). c_id c \<noteq> i) \<and>
     Item db2 = Item db1 \<and>
     map item_id (Item db2) = map item_id (Item (tenants w t))"
proof -
  assume "\<exists>c\<in>set (ItemCategory (tenants w t)). c_id c = i"
  then have ex: "findById i (ItemCategory (tenants w t)) \<noteq> None"
    by (simp add: findById_None_iff)
  let ?db1 = "patchItemsWhereIn [i] (tenants w t)"
  let ?db2 = "deleteById i ?db1"
  have run: "deleteItemCategory t i u w =
       (Inr (), w\<lparr>tenants := (tenants w)(t := ?db2),
                  journal := journal w @ [Persist t ?db1, Persist t ?db2, Dispatch onDeleted]\<rparr>)"
    using ex by (simp add: deleteItemCategory_eq)
  have c1: "ItemCategory ?db1 = ItemCategory (tenants w t)"
    by (simp add: patchItemsWhereIn_def)
  have i1: "Item ?db1 = map (\<lambda>it. if category_id it = Some i then it\<lparr>category_id := None\<rparr> else it)
                  (Item (tenants w t))"
    by (rule patchItemsWhereIn_single)
  have n1: "\<forall>it\<in>set (Item ?db1). category_id it \<noteq> Some i"
    unfolding i1 by auto
  have c2: "ItemCategory ?db2 = filter (\<lambda>c. c_id c \<noteq> i) (ItemCategory (tenants w t))"
    by (simp add: deleteById_def c1)
  have n2: "\<forall>c\<in>set (ItemCategory ?db2). c_id c \<noteq> i"
    unfolding c2 by simp
  have i2: "Item ?db2 = Item ?db1"
    by (simp add: deleteById_def)
  have ids: "map item_id (Item ?db2) = map item_id (Item (tenants w t))"
    unfolding i2 i1 by (induction "Item (tenants w t)") auto
  from run c1 i1 n1 c2 n2 i2 ids show ?thesis by blast
qed

text \<open>
  The theorem at the example tenant, deleting category 1: category 2 remains, the
  Hammer loses its category, the Brush keeps category 2.
\<close>

theorem C2_delete_clears_then_removes_witness:
  "(\<exists>c\<in>set (ItemCategory (tenants exampleWorld 1)). c_id c = 1) \<and>
   fst (deleteItemCategory 1 1 alice exampleWorld) = Inr () \<and>
   map c_id (ItemCategory (tenants (snd (deleteItemCategory 1 1 alice exampleWorld)) 1)) = [2] \<and>
   map category_id (Item (tenants (snd (deleteItemCategory 1 1 alice exampleWorld)) 1)) =
     [None, Some 2, None]"
proof -
  have ex: "\<exists>c\<in>set (ItemCategory (tenants exampleWorld 1)). c_id c = 1"
    by (simp add: example_defs)
  from C2_delete_clears_then_removes [OF ex, of alice]
  obtain db1 db2 where
    run: "deleteItemCategory 1 1 alice exampleWorld =
       (Inr (), exampleWorld\<lparr>tenants := (tenants exampleWorld)(1 := db2),
                  journal := journal exampleWorld @ [Persist 1 db1, Persist 1 db2, Dispatch onDeleted]\<rparr>)"
    and i1: "Item db1 = map (\<lambda>it. if category_id it = Some 1 then it\<lparr>category_id := None\<rparr> else it)
                  (Item (tenants exampleWorld 1))"
    and c2: "ItemCategory db2 = filter (\<lambda>c. c_id c \<noteq> 1) (ItemCategory (tenants exampleWorld 1))"
    and i2: "Item db2 = Item db1"
    by blast
  show ?thesis
    using ex by (simp add: run i1 c2 i2) (simp add: example_defs)
qed

subsection \<open>C3: bulk delete with a missing id\<close>

text \<open>
  C3, as stated, says that the error reports the missing id. The service throws
  \<open>new ServiceError(ERRORS.ITEM_CATEGORIES_NOT_FOUND)\<close>: the ids it has computed
  are not passed on. Bulk-deleting [1, 7] and [1, 8] at the example tenant, where 1 is
  stored and 7 and 8 are not, ends with the same error: it does not tell 7 from 8.
\<close>

theorem C3_counterexample:
  "fst (deleteItemCategories 1 [1, 7] alice exampleWorld) = Inl ITEM_CATEGORIES_NOT_FOUND \<and>
   fst (deleteItemCategories 1 [1, 8] alice exampleWorld) =
     fst (deleteItemCategories 1 [1, 7] alice exampleWorld)"
  by (simp add: deleteItemCategories_eq example_defs)

text \<open>
  C3, amended: a call of \<open>deleteItemCategories\<close> whose id list contains an id with
  no stored category in the tenant fails with \<open>ITEM_CATEGORIES_NOT_FOUND\<close> (the
  error type alone) and leaves everything as it was: no category row is deleted, no
  item association is cleared, no event is dispatched.
\<close>

theorem C3_bulk_delete_all_or_nothing:
  "\<exists>x\<in>set ids. x \<notin> c_id ` set (ItemCategory (tenants w t)) \<Longrightarrow>
   deleteItemCategories t ids u w = (Inl ITEM_CATEGORIES_NOT_FOUND, w)"
  by (simp add: deleteItemCategories_eq)

text \<open>The theorem at the example tenant, for the ids [1, 7].\<close>

theorem C3_bulk_delete_all_or_nothing_witness:
  "(\<exists>x\<in>set [1, 7]. x \<notin> c_id ` set (ItemCategory (tenants exampleWorld 1))) \<and>
   deleteItemCategories 1 [1, 7] alice exampleWorld = (Inl ITEM_CATEGORIES_NOT_FOUND, exampleWorld)"
proof -
  have missing: "\<exists>x\<in>set [1, 7]. x \<notin> c_id ` set (ItemCategory (tenants exampleWorld 1))"
    by (simp add: example_defs)
  from missing C3_bulk_delete_all_or_nothing [OF missing, of alice] show ?thesis by blast
qed

subsection \<open>C4: the account references are validated in turn\<close>

text \<open>
  C4, as stated, says that in every create or edit call a supplied reference to an
  account that does not exist makes the call fail with the not-found error of that
  reference. The name is validated before the accounts: at the example tenant, which
  has a category named Tools and no account 9, creating a category named Tools with
  sell account 9 fails with \<open>CATEGORY_NAME_EXISTS\<close>, not with
  \<open>SELL_ACCOUNT_NOT_FOUND\<close>. So does renaming category 2 to Tools with sell account
  9, and the same edit of the missing category 7 fails with \<open>CATEGORY_NOT_FOUND\<close>.
\<close>

theorem C4_counterexample:
  "sellAccountId takenNameOTD = Num 9 \<and>
   truthy (sellAccountId takenNameOTD) \<and>
   findOneById 9 (Account (tenants exampleWorld 1)) = None \<and>
   fst (newItemCategory 1 takenNameOTD alice exampleWorld) = Inl CATEGORY_NAME_EXISTS \<and>
   fst (newItemCategory 1 takenNameOTD alice exampleWorld) \<noteq> Inl SELL_ACCOUNT_NOT_FOUND \<and>
   fst (editItemCategory 1 2 takenNameOTD alice exampleWorld) = Inl CATEGORY_NAME_EXISTS \<and>
   fst (editItemCategory 1 7 takenNameOTD alice exampleWorld) = Inl CATEGORY_NOT_FOUND"
  by (simp add: newItemCategory_eq editItemCategory_eq findById_def findOneById_def
      takenNameOTD_def example_defs)

text \<open>
  C4, amended: in a create call that does not fail with \<open>CATEGORY_NAME_EXISTS\<close>,
  and in an edit call that fails neither with \<open>CATEGORY_NOT_FOUND\<close> nor with
  \<open>CATEGORY_NAME_EXISTS\<close>, the supplied account references are validated in turn,
  sell, cost, inventory. The call fails with the error of the first rule that is violated
  (\<open>spec_accountChecks\<close>: not found, or the wrong role, for that reference), and it
  does not fail when no rule is violated. A reference is supplied when its id is truthy
  (see C9).
\<close>

theorem C4_account_references_validated_in_turn:
  "(fst (newItemCategory t otd u w) \<noteq> Inl CATEGORY_NAME_EXISTS \<longrightarrow>
      (case spec_accountChecks otd (Account (tenants w t)) of
         Some e \<Rightarrow> fst (newItemCategory t otd u w) = Inl e
       | None \<Rightarrow> \<not> isl (fst (newItemCategory t otd u w)))) \<and>
   (fst (editItemCategory t i otd u w) \<notin> {Inl CATEGORY_NOT_FOUND, Inl CATEGORY_NAME_EXISTS} \<longrightarrow>
      (case spec_accountChecks otd (Account (tenants w t)) of
         Some e \<Rightarrow> fst (editItemCategory t i otd u w) = Inl e
       | None \<Rightarrow> \<not> isl (fst (editItemCategory t i otd u w))))"
proof (intro conjI impI)
  assume "fst (newItemCategory t otd u w) \<noteq> Inl CATEGORY_NAME_EXISTS"
  then show "case spec_accountChecks otd (Account (tenants w t)) of
         Some e \<Rightarrow> fst (newItemCategory t otd u w) = Inl e
       | None \<Rightarrow> \<not> isl (fst (newItemCategory t otd u w))"
    by (auto simp: newItemCategory_eq split: option.splits if_splits)
next
  assume "fst (editItemCategory t i otd u w) \<notin> {Inl CATEGORY_NOT_FOUND, Inl CATEGORY_NAME_EXISTS}"
  then show "case spec_accountChecks otd (Account (tenants w t)) of
         Some e \<Rightarrow> fst (editItemCategory t i otd u w) = Inl e
       | None \<Rightarrow> \<not> isl (fst (editItemCategory t i otd u w))"
    by (auto simp: editItemCategory_eq split: option.splits if_splits)
qed

text \<open>
  The theorem at the example tenant, whose account 1 is an income account, 2 an expense
  account, 3 of the inventory type and 4 a bank account; no account 9 is stored.
\<close>

theorem C4_account_references_validated_in_turn_witness:
  "fst (newItemCategory 1 (accountsOTD 9 2 3) alice exampleWorld) = Inl SELL_ACCOUNT_NOT_FOUND \<and>
   fst (newItemCategory 1 (accountsOTD 2 2 3) alice exampleWorld) = Inl SELL_ACCOUNT_NOT_INCOME \<and>
   fst (newItemCategory 1 (accountsOTD 1 9 3) alice exampleWorld) = Inl COST_ACCOUNT_NOT_FOUMD \<and>
   fst (newItemCategory 1 (accountsOTD 1 1 3) alice exampleWorld) = Inl COST_ACCOUNT_NOT_COGS \<and>
   fst (editItemCategory 1 1 (accountsOTD 1 2 9) alice exampleWorld) = Inl INVENTORY_ACCOUNT_NOT_FOUND \<and>
   fst (editItemCategory 1 1 (accountsOTD 1 2 4) alice exampleWorld) =
     Inl INVENTORY_ACCOUNT_NOT_INVENTORY \<and>
   \<not> isl (fst (newItemCategory 1 (accountsOTD 1 2 3) alice exampleWorld)) \<and>
   \<not> isl (fst (editItemCategory 1 1 (accountsOTD 1 2 3) alice exampleWorld))"
proof -
  have fresh: "\<not> (\<exists>c\<in>set (ItemCategory (tenants exampleWorld 1)). c_name c = name (accountsOTD s c' v))"
    for s c' v
    by (simp add: accountsOTD_def example_defs)
  have stored: "\<exists>c\<in>set (ItemCategory (tenants exampleWorld 1)). c_id c = 1"
    by (simp add: example_defs)
  note n = newItemCategory_no_conflict [OF fresh]
  note e = editItemCategory_no_conflict [OF stored fresh]
  show ?thesis
    using C4_account_references_validated_in_turn [of 1 "accountsOTD 9 2 3" alice exampleWorld 1]
      C4_account_references_validated_in_turn [of 1 "accountsOTD 2 2 3" alice exampleWorld 1]
      C4_account_references_validated_in_turn [of 1 "accountsOTD 1 9 3" alice exampleWorld 1]
      C4_account_references_validated_in_turn [of 1 "accountsOTD 1 1 3" alice exampleWorld 1]
      C4_account_references_validated_in_turn [of 1 "accountsOTD 1 2 9" alice exampleWorld 1]
      C4_account_references_validated_in_turn [of 1 "accountsOTD 1 2 4" alice exampleWorld 1]
      C4_account_references_validated_in_turn [of 1 "accountsOTD 1 2 3" alice exampleWorld 1]
    by (simp add: n e example_checks del: insert_iff)
qed

subsection \<open>C5: the totals of the profit and loss statement\<close>

text \<open>
  C5: in every statement, gross profit is the income total less the cost of sales
  total, operating profit is gross profit less the expenses total, and net income is
  operating profit less the other expenses total. With income summing to 1000, cost of
  sales to 400, expenses to 300 and no other expenses, gross profit is 600, operating
  profit 300 and net income 300.
\<close>

theorem C5_profit_loss_totals:
  "amount (grossProfit (profitLossStatement i c e x)) =
     amount (sectionTotal (income (profitLossStatement i c e x))) -
     amount (sectionTotal (costOfSales (profitLossStatement i c e x))) \<and>
   amount (operatingProfit (profitLossStatement i c e x)) =
     amount (grossProfit (profitLossStatement i c e x)) -
     amount (sectionTotal (expenses (profitLossStatement i c e x))) \<and>
   amount (netIncome (profitLossStatement i c e x)) =
     amount (operatingProfit (profitLossStatement i c e x)) -
     amount (sectionTotal (otherExpenses (profitLossStatement i c e x))) \<and>
   (sum_list (map (\<lambda>a. amount (accountTotal a)) i) = 1000 \<and>
    sum_list (map (\<lambda>a. amount (accountTotal a)) c) = 400 \<and>
    sum_list (map (\<lambda>a. amount (accountTotal a)) e) = 300 \<and> x = [] \<longrightarrow>
      amount (grossProfit (profitLossStatement i c e x)) = 600 \<and>
      amount (operatingProfit (profitLossStatement i c e x)) = 300 \<and>
      amount (netIncome (profitLossStatement i c e x)) = 300)"
  by (simp add: profitLossStatement_def accountsSection_def Let_def)

text \<open>The theorem for two income accounts, one cost account and two expense accounts.\<close>

theorem C5_profit_loss_totals_witness:
  "amount (grossProfit (profitLossStatement [plAccount 1 700, plAccount 2 300] [plAccount 3 400]
      [plAccount 4 100, plAccount 5 200] [])) = 600 \<and>
   amount (operatingProfit (profitLossStatement [plAccount 1 700, plAccount 2 300] [plAccount 3 400]
      [plAccount 4 100, plAccount 5 200] [])) = 300 \<and>
   amount (netIncome (profitLossStatement [plAccount 1 700, plAccount 2 300] [plAccount 3 400]
      [plAccount 4 100, plAccount 5 200] [])) = 300"
  using C5_profit_loss_totals [of "[plAccount 1 700, plAccount 2 300]" "[plAccount 3 400]"
      "[plAccount 4 100, plAccount 5 200]" "[]"]
  by (simp add: plAccount_def)

subsection \<open>C6: a failed call changes nothing\<close>

text \<open>
  C6: whenever create, edit, delete or bulk delete ends with an error, the state after
  the call is the state before it: the category rows and the items of every tenant, and
  the journal of writes and events.
\<close>

theorem C6_failure_leaves_state:
  "(isl (fst (newItemCategory t otd u w)) \<longrightarrow> snd (newItemCategory t otd u w) = w) \<and>
   (isl (fst (editItemCategory t i otd u w)) \<longrightarrow> snd (editItemCategory t i otd u w) = w) \<and>
   (isl (fst (deleteItemCategory t i u w)) \<longrightarrow> snd (deleteItemCategory t i u w) = w) \<and>
   (isl (fst (deleteItemCategories t ids u w)) \<longrightarrow> snd (deleteItemCategories t ids u w) = w)"
proof (intro conjI impI)
  assume "isl (fst (newItemCategory t otd u w))"
  then show "snd (newItemCategory t otd u w) = w"
    by (auto simp: newItemCategory_eq split: if_splits option.splits)
next
  assume "isl (fst (editItemCategory t i otd u w))"
  then show "snd (editItemCategory t i otd u w) = w"
    by (auto simp: editItemCategory_eq split: if_splits option.splits)
next
  assume "isl (fst (deleteItemCategory t i u w))"
  then show "snd (deleteItemCategory t i u w) = w"
    by (auto simp: deleteItemCategory_eq split: if_splits)
next
  assume "isl (fst (deleteItemCategories t ids u w))"
  then show "snd (deleteItemCategories t ids u w) = w"
    by (auto simp: deleteItemCategories_eq split: if_splits)
qed

text \<open>
  The theorem at the example tenant: a create with a taken name, an edit with a sell
  account that is not an income account, a delete of a missing category and a bulk
  delete with a missing id.
\<close>

theorem C6_failure_leaves_state_witness:
  "fst (newItemCategory 1 (namedOTD ''Tools'') alice exampleWorld) = Inl CATEGORY_NAME_EXISTS \<and>
   snd (newItemCategory 1 (namedOTD ''Tools'') alice exampleWorld) = exampleWorld \<and>
   fst (editItemCategory 1 1 wrongSellOTD alice exampleWorld) = Inl SELL_ACCOUNT_NOT_INCOME \<and>
   snd (editItemCategory 1 1 wrongSellOTD alice exampleWorld) = exampleWorld \<and>
   fst (deleteItemCategory 1 7 alice exampleWorld) = Inl CATEGORY_NOT_FOUND \<and>
   snd (deleteItemCategory 1 7 alice exampleWorld) = exampleWorld \<and>
   fst (deleteItemCategories 1 [1, 7] alice exampleWorld) = Inl ITEM_CATEGORIES_NOT_FOUND \<and>
   snd (deleteItemCategories 1 [1, 7] alice exampleWorld) = exampleWorld"
proof -
  have n: "fst (newItemCategory 1 (namedOTD ''Tools'') alice exampleWorld) = Inl CATEGORY_NAME_EXISTS"
    by (simp add: newItemCategory_eq example_defs)
  have e: "fst (editItemCategory 1 1 wrongSellOTD alice exampleWorld) = Inl SELL_ACCOUNT_NOT_INCOME"
    by (simp add: editItemCategory_eq findById_def findOneById_def spec_accountChecks_def
        spec_accountRule_def wrongSellOTD_def example_defs)
  have d: "fst (deleteItemCategory 1 7 alice exampleWorld) = Inl CATEGORY_NOT_FOUND"
    by (simp add: deleteItemCategory_eq findById_def example_defs)
  have b: "fst (deleteItemCategories 1 [1, 7] alice exampleWorld) = Inl ITEM_CATEGORIES_NOT_FOUND"
    by (simp add: deleteItemCategories_eq example_defs)
  show ?thesis
    using C6_failure_leaves_state [of 1 "namedOTD ''Tools''" alice exampleWorld 1 "[1, 7]"]
      C6_failure_leaves_state [of 1 wrongSellOTD alice exampleWorld 1 "[1, 7]"]
      C6_failure_leaves_state [of 1 wrongSellOTD alice exampleWorld 7 "[1, 7]"]
    by (simp add: n e d b)
qed

subsection \<open>C7: one event, after the writes\<close>

text \<open>
  C7: a call that fails adds nothing to the journal, so it dispatches no event. A call
  that succeeds adds its writes and then exactly one event, of its own kind: one write
  for create and edit, two for delete and bulk delete; the last write before the event
  has left the tenant's database as it is at the end of the call.
\<close>

theorem C7_one_event_after_the_writes:
  "(case fst (newItemCategory t otd u w) of
      Inl e \<Rightarrow> journal (snd (newItemCategory t otd u w)) = journal w
    | Inr r \<Rightarrow> journal (snd (newItemCategory t otd u w)) =
        journal w @ [Persist t (tenants (snd (newItemCategory t otd u w)) t), Dispatch onCreated]) \<and>
   (case fst (editItemCategory t i otd u w) of
      Inl e \<Rightarrow> journal (snd (editItemCategory t i otd u w)) = journal w
    | Inr r \<Rightarrow> journal (snd (editItemCategory t i otd u w)) =
        journal w @ [Persist t (tenants (snd (editItemCategory t i otd u w)) t), Dispatch onEdited]) \<and>
   (case fst (deleteItemCategory t i u w) of
      Inl e \<Rightarrow> journal (snd (deleteItemCategory t i u w)) = journal w
    | Inr r \<Rightarrow> (\<exists>db1. journal (snd (deleteItemCategory t i u w)) =
        journal w @ [Persist t db1, Persist t (tenants (snd (deleteItemCategory t i u w)) t),
                     Dispatch onDeleted])) \<and>
   (case fst (deleteItemCategories t ids u w) of
      Inl e \<Rightarrow> journal (snd (deleteItemCategories t ids u w)) = journal w
    | Inr r \<Rightarrow> (\<exists>db1. journal (snd (deleteItemCategories t ids u w)) =
        journal w @ [Persist t db1, Persist t (tenants (snd (deleteItemCategories t ids u w)) t),
                     Dispatch onBulkDeleted]))"
proof (intro conjI)
  show "case fst (newItemCategory t otd u w) of
      Inl e \<Rightarrow> journal (snd (newItemCategory t otd u w)) = journal w
    | Inr r \<Rightarrow> journal (snd (newItemCategory t otd u w)) =
        journal w @ [Persist t (tenants (snd (newItemCategory t otd u w)) t), Dispatch onCreated]"
    by (auto simp: newItemCategory_eq split: option.splits)
  show "case fst (editItemCategory t i otd u w) of
      Inl e \<Rightarrow> journal (snd (editItemCategory t i otd u w)) = journal w
    | Inr r \<Rightarrow> journal (snd (editItemCategory t i otd u w)) =
        journal w @ [Persist t (tenants (snd (editItemCategory t i otd u w)) t), Dispatch onEdited]"
    by (auto simp: editItemCategory_eq split: option.splits)
  show "case fst (deleteItemCategory t i u w) of
      Inl e \<Rightarrow> journal (snd (deleteItemCategory t i u w)) = journal w
    | Inr r \<Rightarrow> (\<exists>db1. journal (snd (deleteItemCategory t i u w)) =
        journal w @ [Persist t db1, Persist t (tenants (snd (deleteItemCategory t i u w)) t),
                     Dispatch onDeleted])"
    by (simp add: deleteItemCategory_eq)
  show "case fst (deleteItemCategories t ids u w) of
      Inl e \<Rightarrow> journal (snd (deleteItemCategories t ids u w)) = journal w
    | Inr r \<Rightarrow> (\<exists>db1. journal (snd (deleteItemCategories t ids u w)) =
        journal w @ [Persist t db1, Persist t (tenants (snd (deleteItemCategories t ids u w)) t),
                     Dispatch onBulkDeleted])"
    by (simp add: deleteItemCategories_eq)
qed

text \<open>
  The theorem at the example tenant: a failed create, a successful create and a
  successful delete.
\<close>

theorem C7_one_event_after_the_writes_witness:
  "journal (snd (newItemCategory 1 (namedOTD ''Tools'') alice exampleWorld)) = [] \<and>
   filter (\<lambda>x. \<not> isPersist x)
     (journal (snd (newItemCategory 1 (namedOTD ''Brushes'') alice exampleWorld))) =
     [Dispatch onCreated] \<and>
   filter (\<lambda>x. \<not> isPersist x) (journal (snd (deleteItemCategory 1 1 alice exampleWorld))) =
     [Dispatch onDeleted]"
proof -
  have empty: "journal exampleWorld = []"
    by (simp add: exampleWorld_def)
  have failed: "fst (newItemCategory 1 (namedOTD ''Tools'') alice exampleWorld) =
      Inl CATEGORY_NAME_EXISTS"
    by (simp add: newItemCategory_eq example_defs)
  have "\<not> isl (fst (newItemCategory 1 (namedOTD ''Brushes'') alice exampleWorld))"
    by (simp add: newItemCategory_eq spec_accountChecks_def spec_accountRule_def example_defs)
  then obtain r where created: "fst (newItemCategory 1 (namedOTD ''Brushes'') alice exampleWorld) = Inr r"
    by (cases "fst (newItemCategory 1 (namedOTD ''Brushes'') alice exampleWorld)") auto
  have deleted: "fst (deleteItemCategory 1 1 alice exampleWorld) = Inr ()"
    by (simp add: deleteItemCategory_eq findById_def example_defs)
  from C7_one_event_after_the_writes [of 1 "namedOTD ''Tools''" alice exampleWorld 7 "[]"]
  have a: "journal (snd (newItemCategory 1 (namedOTD ''Tools'') alice exampleWorld)) = []"
    by (simp add: failed empty)
  from C7_one_event_after_the_writes [of 1 "namedOTD ''Brushes''" alice exampleWorld 1 "[]"]
  have b: "filter (\<lambda>x. \<not> isPersist x)
     (journal (snd (newItemCategory 1 (namedOTD ''Brushes'') alice exampleWorld))) =
     [Dispatch onCreated]"
    and c: "filter (\<lambda>x. \<not> isPersist x) (journal (snd (deleteItemCategory 1 1 alice exampleWorld))) =
     [Dispatch onDeleted]"
    by (auto simp: created deleted empty)
  from a b c show ?thesis by simp
qed

subsection \<open>C8: what \<open>unassociateItemsWithCategories\<close> changes\<close>

text \<open>
  C8: \<open>unassociateItemsWithCategories\<close> keeps the number and order of the item
  rows. An item whose \<open>category_id\<close> is not among the given ids is unchanged; an
  item whose \<open>category_id\<close> is among them is the same row with \<open>category_id\<close>
  set to NULL. The category rows and the accounts of the tenant, and the other tenants,
  are unchanged.
\<close>

theorem C8_unassociate_changes_only_category_id:
  "fst (unassociateItemsWithCategories t x w) = Inr () \<and>
   length (Item (tenants (snd (unassociateItemsWithCategories t x w)) t)) =
     length (Item (tenants w t)) \<and>
   (\<forall>k < length (Item (tenants w t)).
      (category_id (Item (tenants w t) ! k) \<notin> Some ` set (case x of One n \<Rightarrow> [n] | Many ns \<Rightarrow> ns) \<longrightarrow>
         Item (tenants (snd (unassociateItemsWithCategories t x w)) t) ! k = Item (tenants w t) ! k) \<and>
      (category_id (Item (tenants w t) ! k) \<in> Some ` set (case x of One n \<Rightarrow> [n] | Many ns \<Rightarrow> ns) \<longrightarrow>
         Item (tenants (snd (unassociateItemsWithCategories t x w)) t) ! k =
           (Item (tenants w t) ! k)\<lparr>category_id := None\<rparr>)) \<and>
   ItemCategory (tenants (snd (unassociateItemsWithCategories t x w)) t) = ItemCategory (tenants w t) \<and>
   Account (tenants (snd (unassociateItemsWithCategories t x w)) t) = Account (tenants w t) \<and>
   (\<forall>t'. t' \<noteq> t \<longrightarrow> tenants (snd (unassociateItemsWithCategories t x w)) t' = tenants w t')"
proof -
  let ?ids = "case x of One n \<Rightarrow> [n] | Many ns \<Rightarrow> ns"
  let ?w' = "snd (unassociateItemsWithCategories t x w)"
  have db: "tenants ?w' t = patchItemsWhereIn ?ids (tenants w t)"
    by (simp add: unassociateItemsWithCategories_eq)
  have r: "fst (unassociateItemsWithCategories t x w) = Inr ()"
    by (simp add: unassociateItemsWithCategories_eq)
  have len: "length (Item (tenants ?w' t)) = length (Item (tenants w t))"
    unfolding db by (simp add: patchItemsWhereIn_def)
  have items: "\<forall>k < length (Item (tenants w t)).
      (category_id (Item (tenants w t) ! k) \<notin> Some ` set ?ids \<longrightarrow>
         Item (tenants ?w' t) ! k = Item (tenants w t) ! k) \<and>
      (category_id (Item (tenants w t) ! k) \<in> Some ` set ?ids \<longrightarrow>
         Item (tenants ?w' t) ! k = (Item (tenants w t) ! k)\<lparr>category_id := None\<rparr>)"
    unfolding db using patchItemsWhereIn_nth [of _ "tenants w t" ?ids] by simp
  have cats: "ItemCategory (tenants ?w' t) = ItemCategory (tenants w t)"
    unfolding db by (simp add: patchItemsWhereIn_def)
  have accs: "Account (tenants ?w' t) = Account (tenants w t)"
    unfolding db by (simp add: patchItemsWhereIn_def)
  have others: "\<forall>t'. t' \<noteq> t \<longrightarrow> tenants ?w' t' = tenants w t'"
    by (simp add: unassociateItemsWithCategories_eq)
  from r len items cats accs others show ?thesis by blast
qed

text \<open>The theorem at the example tenant, for the ids [1, 7].\<close>

theorem C8_unassociate_changes_only_category_id_witness:
  "length (Item (tenants (snd (unassociateItemsWithCategories 1 (Many [1, 7]) exampleWorld)) 1)) = 3 \<and>
   Item (tenants (snd (unassociateItemsWithCategories 1 (Many [1, 7]) exampleWorld)) 1) ! 0 =
     \<lparr>item_id = 100, item_name = ''Hammer'', category_id = None\<rparr> \<and>
   Item (tenants (snd (unassociateItemsWithCategories 1 (Many [1, 7]) exampleWorld)) 1) ! 1 =
     \<lparr>item_id = 101, item_name = ''Brush'', category_id = Some 2\<rparr> \<and>
   Item (tenants (snd (unassociateItemsWithCategories 1 (Many [1, 7]) exampleWorld)) 1) ! 2 =
     \<lparr>item_id = 102, item_name = ''Nail'', category_id = None\<rparr>"
proof -
  note c8 = C8_unassociate_changes_only_category_id [of 1 "Many [1, 7]" exampleWorld]
  have old: "Item (tenants exampleWorld 1) =
     [\<lparr>item_id = 100, item_name = ''Hammer'', category_id = Some 1\<rparr>,
      \<lparr>item_id = 101, item_name = ''Brush'', category_id = Some 2\<rparr>,
      \<lparr>item_id = 102, item_name = ''Nail'', category_id = None\<rparr>]"
    by (simp add: example_defs)
  from c8 show ?thesis
    by (simp add: old)
qed

subsection \<open>C9: falsy account ids are not validated\<close>

text \<open>
  C9: when \<open>sellAccountId\<close> of the payload is 0, null or undefined, neither create
  nor edit ends with \<open>SELL_ACCOUNT_NOT_FOUND\<close> or \<open>SELL_ACCOUNT_NOT_INCOME\<close>,
  whatever accounts are stored; likewise for \<open>costAccountId\<close> and
  \<open>inventoryAccountId\<close> and their errors.
\<close>

theorem C9_falsy_ids_are_not_validated:
  "(\<not> truthy (sellAccountId otd) \<longrightarrow>
      fst (newItemCategory t otd u w) \<notin> {Inl SELL_ACCOUNT_NOT_FOUND, Inl SELL_ACCOUNT_NOT_INCOME} \<and>
      fst (editItemCategory t i otd u w) \<notin> {Inl SELL_ACCOUNT_NOT_FOUND, Inl SELL_ACCOUNT_NOT_INCOME}) \<and>
   (\<not> truthy (costAccountId otd) \<longrightarrow>
      fst (newItemCategory t otd u w) \<notin> {Inl COST_ACCOUNT_NOT_FOUMD, Inl COST_ACCOUNT_NOT_COGS} \<and>
      fst (editItemCategory t i otd u w) \<notin> {Inl COST_ACCOUNT_NOT_FOUMD, Inl COST_ACCOUNT_NOT_COGS}) \<and>
   (\<not> truthy (inventoryAccountId otd) \<longrightarrow>
      fst (newItemCategory t otd u w) \<notin>
        {Inl INVENTORY_ACCOUNT_NOT_FOUND, Inl INVENTORY_ACCOUNT_NOT_INVENTORY} \<and>
      fst (editItemCategory t i otd u w) \<notin>
        {Inl INVENTORY_ACCOUNT_NOT_FOUND, Inl INVENTORY_ACCOUNT_NOT_INVENTORY})"
proof (intro conjI impI)
  assume f: "\<not> truthy (sellAccountId otd)"
  show "fst (newItemCategory t otd u w) \<notin> {Inl SELL_ACCOUNT_NOT_FOUND, Inl SELL_ACCOUNT_NOT_INCOME}"
    using spec_accountChecks_sell [OF f, of "Account (tenants w t)"]
    by (auto dest: newItemCategory_account_error)
  show "fst (editItemCategory t i otd u w) \<notin> {Inl SELL_ACCOUNT_NOT_FOUND, Inl SELL_ACCOUNT_NOT_INCOME}"
    using spec_accountChecks_sell [OF f, of "Account (tenants w t)"]
    by (auto dest: editItemCategory_account_error)
next
  assume f: "\<not> truthy (costAccountId otd)"
  show "fst (newItemCategory t otd u w) \<notin> {Inl COST_ACCOUNT_NOT_FOUMD, Inl COST_ACCOUNT_NOT_COGS}"
    using spec_accountChecks_cost [OF f, of "Account (tenants w t)"]
    by (auto dest: newItemCategory_account_error)
  show "fst (editItemCategory t i otd u w) \<notin> {Inl COST_ACCOUNT_NOT_FOUMD, Inl COST_ACCOUNT_NOT_COGS}"
    using spec_accountChecks_cost [OF f, of "Account (tenants w t)"]
    by (auto dest: editItemCategory_account_error)
next
  assume f: "\<not> truthy (inventoryAccountId otd)"
  show "fst (newItemCategory t otd u w) \<notin>
        {Inl INVENTORY_ACCOUNT_NOT_FOUND, Inl INVENTORY_ACCOUNT_NOT_INVENTORY}"
    using spec_accountChecks_inventory [OF f, of "Account (tenants w t)"]
    by (auto dest: newItemCategory_account_error)
  show "fst (editItemCategory t i otd u w) \<notin>
        {Inl INVENTORY_ACCOUNT_NOT_FOUND, Inl INVENTORY_ACCOUNT_NOT_INVENTORY}"
    using spec_accountChecks_inventory [OF f, of "Account (tenants w t)"]
    by (auto dest: editItemCategory_account_error)
qed

text \<open>
  The theorem at the example tenant, for a payload with sell account id 0, cost account
  id null and no inventory account id: no account 0 is stored, and the sell account is
  not reported as missing.
\<close>

theorem C9_falsy_ids_are_not_validated_witness:
  "\<not> truthy (sellAccountId zeroIdsOTD) \<and> \<not> truthy (costAccountId zeroIdsOTD) \<and>
   \<not> truthy (inventoryAccountId zeroIdsOTD) \<and>
   findOneById 0 (Account (tenants exampleWorld 1)) = None \<and>
   fst (newItemCategory 1 zeroIdsOTD alice exampleWorld) \<noteq> Inl SELL_ACCOUNT_NOT_FOUND \<and>
   fst (editItemCategory 1 1 zeroIdsOTD alice exampleWorld) \<noteq> Inl SELL_ACCOUNT_NOT_FOUND"
  using C9_falsy_ids_are_not_validated [of zeroIdsOTD 1 alice exampleWorld 1]
  by (simp add: zeroIdsOTD_def findOneById_def example_defs)

subsection \<open>C10: an edit overwrites the owning user\<close>

text \<open>
  C10: after a successful \<open>editItemCategory\<close>, the edited category is stored with
  the id of the user who made the edit as its \<open>userId\<close>, and the returned row
  carries it too: the user recorded before is not kept.
\<close>

theorem C10_edit_overwrites_userId:
  "fst (editItemCategory t i otd u w) = Inr r \<Longrightarrow>
   (\<exists>c. r = Some c \<and> c_id c = i \<and> c_userId c = user_id u) \<and>
   (\<exists>c\<in>set (ItemCategory (tenants (snd (editItemCategory t i otd u w)) t)). c_id c = i) \<and>
   (\<forall>c\<in>set (ItemCategory (tenants (snd (editItemCategory t i otd u w)) t)).
      c_id c = i \<longrightarrow> c_userId c = user_id u)"
proof -
  assume ok: "fst (editItemCategory t i otd u w) = Inr r"
  let ?obj = "transformOTDToObject otd u"
  let ?db = "patchById i ?obj (tenants w t)"
  have uid: "userId ?obj = user_id u"
    by (simp add: transformOTDToObject_def)
  from ok have found: "findById i (ItemCategory (tenants w t)) \<noteq> None"
    by (auto simp: editItemCategory_eq split: if_splits)
  from ok found have r: "r = findById i (ItemCategory ?db)"
    by (auto simp: editItemCategory_eq split: if_splits option.splits)
  from ok found have db: "tenants (snd (editItemCategory t i otd u w)) t = ?db"
    by (auto simp: editItemCategory_eq split: if_splits option.splits)
  from found have "i \<in> c_id ` set (ItemCategory (tenants w t))"
    by (auto simp: findById_None_iff)
  then have "i \<in> c_id ` set (ItemCategory ?db)"
    by (simp only: patchById_ids)
  then have ex: "\<exists>c\<in>set (ItemCategory ?db). c_id c = i" by auto
  then have "findById i (ItemCategory ?db) \<noteq> None"
    by (simp add: findById_None_iff)
  then obtain c where c: "findById i (ItemCategory ?db) = Some c" by auto
  from findById_Some [OF c] patchById_userId [of i ?obj "tenants w t"]
  have "c_id c = i \<and> c_userId c = user_id u" by (auto simp: uid)
  with r c have first: "\<exists>c. r = Some c \<and> c_id c = i \<and> c_userId c = user_id u" by simp
  from patchById_userId [of i ?obj "tenants w t"]
  have all: "\<forall>c\<in>set (ItemCategory ?db). c_id c = i \<longrightarrow> c_userId c = user_id u"
    by (simp add: uid)
  from first ex all show ?thesis unfolding db by blast
qed

text \<open>
  The theorem at the example tenant: category 1 was recorded for user 10; after an edit
  by user 11 it is recorded for user 11.
\<close>

theorem C10_edit_overwrites_userId_witness:
  "c_userId (hd (ItemCategory (tenants exampleWorld 1))) = 10 \<and>
   user_id bob = 11 \<and>
   (\<exists>c\<in>set (ItemCategory (tenants (snd (editItemCategory 1 1 (namedOTD ''Tools'') bob exampleWorld)) 1)).
      c_id c = 1 \<and> c_userId c = 11)"
proof -
  have ok: "fst (editItemCategory 1 1 (namedOTD ''Tools'') bob exampleWorld) =
      Inr (Some \<lparr>c_id = 1, c_name = ''Tools'', c_sellAccountId = None, c_costAccountId = None,
          c_inventoryAccountId = None, c_userId = 11\<rparr>)"
    by (simp add: editItemCategory_eq findById_def spec_accountChecks_def spec_accountRule_def
        patchById_def patchRow_def transformOTDToObject_def example_defs)
  have old: "c_userId (hd (ItemCategory (tenants exampleWorld 1))) = 10"
    by (simp add: example_defs)
  have b: "user_id bob = 11"
    by (simp add: bob_def)
  from C10_edit_overwrites_userId [OF ok]
  have "\<exists>c\<in>set (ItemCategory (tenants (snd (editItemCategory 1 1 (namedOTD ''Tools'') bob
            exampleWorld)) 1)). c_id c = 1 \<and> c_userId c = user_id bob"
    by blast
  with old b show ?thesis by simp
qed

end
